theory Spec2Isabelle
  imports Complex_Main "HOL-Library.Word" "HOL-Library.Log_Nat"
begin

section \<open>Values shared by the two source files\<close>

type_synonym byte = "8 word"

text \<open>
  What a JavaScript statement can throw in the code modelled here. \<open>ReferenceError\<close>
  carries the identifier that is not bound, \<open>TypeError\<close> the member that is called
  although it is not a function. \<open>Truncated\<close> and \<open>InvalidUtf8\<close> are the two
  failures the specification names for the readers of SerialBuffer; \<open>RangeError\<close>
  is a write that does not fit the preallocated buffer and \<open>MalformedValue\<close> a string
  longer than the one length byte can announce. \<open>MalformedBlock\<close> is what section 7
  of the specification names for a constructor that receives a wrong shape.
\<close>

datatype error =
    ReferenceError string
  | TypeError string
  | Truncated
  | InvalidUtf8
  | RangeError
  | MalformedValue
  | MalformedBlock

section \<open>SerialBuffer\<close>

text \<open>
  Modelled from the spec: the class SerialBuffer is not among the source files. Section 4.1
  describes it as a cursor over a contiguous byte buffer with independent read and write
  positions, big-endian encoders and decoders for u8, u16, u32 and u64, and VarLenString
  (one length byte N, then N bytes). Readers fail with \<open>Truncated\<close> when the remaining
  bytes are insufficient.
\<close>

record SerialBuffer =
  buffer :: "byte list"
  readPos :: nat
  writePos :: nat

definition new_SerialBuffer :: "nat \<Rightarrow> SerialBuffer" where
  "new_SerialBuffer n = \<lparr>buffer = replicate n 0, readPos = 0, writePos = 0\<rparr>"

fun be_bytes :: "nat \<Rightarrow> nat \<Rightarrow> byte list" where
  "be_bytes 0 v = []"
| "be_bytes (Suc n) v = be_bytes n (v div 256) @ [of_nat (v mod 256)]"

definition be_nat :: "byte list \<Rightarrow> nat" where
  "be_nat bs = foldl (\<lambda>acc b. 256 * acc + unat b) 0 bs"

text \<open>
  A writer changes the buffer in place. Its outcome is the buffer it leaves when it
  returns, or the exception it throws together with the buffer as the throw leaves it.
\<close>

datatype outcome = Returns SerialBuffer | Throws error SerialBuffer

definition write_bytes :: "SerialBuffer \<Rightarrow> byte list \<Rightarrow> outcome" where
  "write_bytes buf bs =
     (if writePos buf + length bs \<le> length (buffer buf)
      then Returns (buf\<lparr>buffer := take (writePos buf) (buffer buf) @ bs
                                     @ drop (writePos buf + length bs) (buffer buf),
                         writePos := writePos buf + length bs\<rparr>)
      else Throws RangeError buf)"

definition read_bytes :: "SerialBuffer \<Rightarrow> nat \<Rightarrow> error + (byte list \<times> SerialBuffer)" where
  "read_bytes buf n =
     (if readPos buf + n \<le> length (buffer buf)
      then Inr (take n (drop (readPos buf) (buffer buf)), buf\<lparr>readPos := readPos buf + n\<rparr>)
      else Inl Truncated)"

definition writeUint8 :: "SerialBuffer \<Rightarrow> 8 word \<Rightarrow> outcome" where
  "writeUint8 buf v = write_bytes buf (be_bytes 1 (unat v))"

definition writeUint16 :: "SerialBuffer \<Rightarrow> 16 word \<Rightarrow> outcome" where
  "writeUint16 buf v = write_bytes buf (be_bytes 2 (unat v))"

definition writeUint32 :: "SerialBuffer \<Rightarrow> 32 word \<Rightarrow> outcome" where
  "writeUint32 buf v = write_bytes buf (be_bytes 4 (unat v))"

definition writeUint64 :: "SerialBuffer \<Rightarrow> 64 word \<Rightarrow> outcome" where
  "writeUint64 buf v = write_bytes buf (be_bytes 8 (unat v))"

definition readUint8 :: "SerialBuffer \<Rightarrow> error + (8 word \<times> SerialBuffer)" where
  "readUint8 buf =
     (case read_bytes buf 1 of Inl e \<Rightarrow> Inl e | Inr (bs, buf') \<Rightarrow> Inr (of_nat (be_nat bs), buf'))"

definition readUint16 :: "SerialBuffer \<Rightarrow> error + (16 word \<times> SerialBuffer)" where
  "readUint16 buf =
     (case read_bytes buf 2 of Inl e \<Rightarrow> Inl e | Inr (bs, buf') \<Rightarrow> Inr (of_nat (be_nat bs), buf'))"

definition readUint32 :: "SerialBuffer \<Rightarrow> error + (32 word \<times> SerialBuffer)" where
  "readUint32 buf =
     (case read_bytes buf 4 of Inl e \<Rightarrow> Inl e | Inr (bs, buf') \<Rightarrow> Inr (of_nat (be_nat bs), buf'))"

definition readUint64 :: "SerialBuffer \<Rightarrow> error + (64 word \<times> SerialBuffer)" where
  "readUint64 buf =
     (case read_bytes buf 8 of Inl e \<Rightarrow> Inl e | Inr (bs, buf') \<Rightarrow> Inr (of_nat (be_nat bs), buf'))"

text \<open>
  A JavaScript string is a sequence of UTF-16 code units, and \<^verbatim>\<open>.length\<close> counts
  them. VarLenString holds the UTF-8 bytes of the string after one length byte. The
  UTF-8 coder is not part of the source files: the writer takes the encoder as a
  parameter, and the reader takes the decoder, which gives no string for bytes that are
  not UTF-8.
\<close>

type_synonym jsstring = "16 word list"

definition writeVarLenString ::
  "(jsstring \<Rightarrow> byte list) \<Rightarrow> SerialBuffer \<Rightarrow> jsstring \<Rightarrow> outcome" where
  "writeVarLenString enc buf s =
     (let bs = enc s in
      if 255 < length bs then Throws MalformedValue buf
      else case writeUint8 buf (of_nat (length bs)) of
             Throws e buf' \<Rightarrow> Throws e buf'
           | Returns buf' \<Rightarrow> write_bytes buf' bs)"

definition readVarLenString ::
  "(byte list \<Rightarrow> jsstring option) \<Rightarrow> SerialBuffer \<Rightarrow> error + (jsstring \<times> SerialBuffer)" where
  "readVarLenString dec buf =
     (case readUint8 buf of
        Inl e \<Rightarrow> Inl e
      | Inr (n, buf') \<Rightarrow>
          (case read_bytes buf' (unat n) of
             Inl e \<Rightarrow> Inl e
           | Inr (bs, buf'') \<Rightarrow>
               (case dec bs of
                  None \<Rightarrow> Inl InvalidUtf8
                | Some s \<Rightarrow> Inr (s, buf''))))"

section \<open>NetAddress\<close>

text \<open>
  The class of \<^verbatim>\<open>NetAddress.js\<close>: five fields set by the constructor without any
  check. The widths are those of the wire format (u32, u64, string, u16, u32).
\<close>

record NetAddress =
  services :: "32 word"
  timestamp :: "64 word"
  host :: jsstring
  port :: "16 word"
  signalId :: "32 word"

text \<open>
  The getter \<^verbatim>\<open>serializedSize\<close> (lines 29 to 36): the sum of the six constants and
  \<^verbatim>\<open>this._host.length\<close>, the number of code units of the host, in the order of the
  source.
\<close>

definition serializedSize :: "NetAddress \<Rightarrow> nat" where
  "serializedSize a = 4 + 8 + 1 + length (host a) + 2 + 4"

text \<open>
  \<^verbatim>\<open>serialize(buf)\<close> (lines 19 to 27). A missing argument is \<open>None\<close> and is replaced
  by a fresh buffer of \<open>serializedSize\<close> bytes. The four writes of lines 21 to 24 use
  fields of \<^verbatim>\<open>this\<close>. Line 25 passes the bare identifier \<^verbatim>\<open>signalId\<close>: the method has
  no such parameter or local and the class body binds none, so evaluating the argument
  throws a ReferenceError before \<^verbatim>\<open>writeUint32\<close> is entered, and line 26 is not reached.
  The buffer of the outcome shows what the four writes have written by then.
\<close>

definition serialize ::
  "(jsstring \<Rightarrow> byte list) \<Rightarrow> NetAddress \<Rightarrow> SerialBuffer option \<Rightarrow> outcome" where
  "serialize enc a buf =
     (let buf0 = (case buf of Some b \<Rightarrow> b | None \<Rightarrow> new_SerialBuffer (serializedSize a)) in
      case writeUint32 buf0 (services a) of
        Throws e b \<Rightarrow> Throws e b
      | Returns buf1 \<Rightarrow>
      (case writeUint64 buf1 (timestamp a) of
        Throws e b \<Rightarrow> Throws e b
      | Returns buf2 \<Rightarrow>
      (case writeVarLenString enc buf2 (host a) of
        Throws e b \<Rightarrow> Throws e b
      | Returns buf3 \<Rightarrow>
      (case writeUint16 buf3 (port a) of
        Throws e b \<Rightarrow> Throws e b
      | Returns buf4 \<Rightarrow> Throws (ReferenceError ''signalId'') buf4))))"

text \<open>
  \<^verbatim>\<open>NetAddress.unserialize(buf)\<close> (lines 10 to 17). The five reads bind the locals
  \<^verbatim>\<open>services\<close>, \<^verbatim>\<open>timestamp\<close>, \<^verbatim>\<open>host\<close>, \<^verbatim>\<open>port\<close> and \<^verbatim>\<open>signalId\<close>. The
  constructor call of line 16 names \<^verbatim>\<open>ipAddress\<close> as its third argument, which is
  bound nowhere: the argument list throws a ReferenceError and no NetAddress is built.
\<close>

definition unserialize ::
  "(byte list \<Rightarrow> jsstring option) \<Rightarrow> SerialBuffer \<Rightarrow> error + NetAddress" where
  "unserialize dec buf =
     (case readUint32 buf of
        Inl e \<Rightarrow> Inl e
      | Inr (services', buf1) \<Rightarrow>
      (case readUint64 buf1 of
        Inl e \<Rightarrow> Inl e
      | Inr (timestamp', buf2) \<Rightarrow>
      (case readVarLenString dec buf2 of
        Inl e \<Rightarrow> Inl e
      | Inr (host', buf3) \<Rightarrow>
      (case readUint16 buf3 of
        Inl e \<Rightarrow> Inl e
      | Inr (port', buf4) \<Rightarrow>
      (case readUint32 buf4 of
        Inl e \<Rightarrow> Inl e
      | Inr (signalId', buf5) \<Rightarrow> Inl (ReferenceError ''ipAddress''))))))"

text \<open>
  \<^verbatim>\<open>equals(o)\<close> (lines 38 to 44). The argument is any object; \<^verbatim>\<open>instanceof\<close>
  rejects everything that is not a NetAddress. The four comparisons are \<^verbatim>\<open>===\<close> on
  numbers and strings, which is equality of the values.
\<close>

datatype jsobject = NetAddressObj NetAddress | OtherObj

fun equals :: "NetAddress \<Rightarrow> jsobject \<Rightarrow> bool" where
  "equals a (NetAddressObj b) =
     (services a = services b \<and> host a = host b \<and> port a = port b \<and> signalId a = signalId b)"
| "equals a OtherObj = False"

text \<open>
  The JavaScript string of an ASCII literal, and the UTF-8 coder on such strings: one
  byte for each code unit below 128. The decoder gives no string for other bytes.
\<close>

definition js_string :: "string \<Rightarrow> jsstring" where
  "js_string s = map of_char s"

definition ascii_encode :: "jsstring \<Rightarrow> byte list" where
  "ascii_encode s = map ucast s"

definition ascii_decode :: "byte list \<Rightarrow> jsstring option" where
  "ascii_decode bs = (if list_all (\<lambda>b. b < 128) bs then Some (map ucast bs) else None)"

text \<open>The two addresses of the concrete scenarios of the specification.\<close>

definition zero_address :: NetAddress where
  "zero_address = \<lparr>services = 0, timestamp = 0, host = [], port = 0, signalId = 0\<rparr>"

definition example_address :: NetAddress where
  "example_address =
     \<lparr>services = 1, timestamp = 0x0102030405060708, host = js_string ''example.com'',
      port = 8443, signalId = 42\<rparr>"

section \<open>Hashes, transactions and the parts of a block\<close>

text \<open>
  A Hash is a fixed 32-byte value and an Address a fixed 20-byte value, both compared
  byte-wise; read big-endian they are a 256-bit and a 160-bit word. A public key is a
  byte string.
\<close>

type_synonym hash = "256 word"
type_synonym address = "160 word"
type_synonym pubkey = "byte list"

record Transaction =
  senderPubKey :: pubkey
  recipientAddr :: address
  signature :: "byte list"

record BlockHeader =
  prevHash :: hash
  interlinkHash :: hash
  bodyHash :: hash
  accountsHash :: hash
  nBits :: "32 word"
  height :: "32 word"
  timestamp :: "32 word"
  nonce :: "32 word"

text \<open>
  An interlink is a vector of hashes (section 3 of the specification).
\<close>

record BlockInterlink =
  hashes :: "hash list"

record BlockBody =
  minerAddr :: address
  transactions :: "Transaction list"

record Block =
  header :: BlockHeader
  interlink :: BlockInterlink
  body :: BlockBody

text \<open>
  A JavaScript array holds any value, and reading it outside its bounds yields
  \<^verbatim>\<open>undefined\<close> instead of failing. An element of the array that
  \<^verbatim>\<open>nextInterlink\<close> fills is therefore an instance of Hash or \<open>Undefined\<close>, and
  \<open>js_index\<close> is the read \<^verbatim>\<open>hashes[j]\<close> of the array of an interlink.
\<close>

datatype element = Undefined | Hash hash

definition js_index :: "hash list \<Rightarrow> int \<Rightarrow> element" where
  "js_index xs j = (if 0 \<le> j \<and> j < int (length xs) then Hash (xs ! nat j) else Undefined)"

text \<open>
  Modelled from the spec: the constructor of BlockInterlink is not among the source
  files. Section 3 makes an interlink a vector of Hash, and sections 7 and 9 have a
  constructor reject an input of the wrong shape (MalformedBlock), as the constructor of
  \<^verbatim>\<open>Block\<close> does with its three \<^verbatim>\<open>instanceof\<close> tests (lines 8 to 10). An array whose
  elements are all hashes is wrapped, the empty array of the genesis block included; an
  array with an element that is no Hash is rejected.
\<close>

fun to_hashes :: "element list \<Rightarrow> hash list option" where
  "to_hashes [] = Some []"
| "to_hashes (Undefined # es) = None"
| "to_hashes (Hash h # es) = (case to_hashes es of None \<Rightarrow> None | Some hs \<Rightarrow> Some (h # hs))"

definition new_BlockInterlink :: "element list \<Rightarrow> error + BlockInterlink" where
  "new_BlockInterlink es =
     (case to_hashes es of None \<Rightarrow> Inl MalformedBlock | Some hs \<Rightarrow> Inr \<lparr>hashes = hs\<rparr>)"

section \<open>What the class Block takes from other classes\<close>

text \<open>
  The classes BlockHeader, BlockInterlink, BlockBody, Transaction, BlockUtils and Policy
  are not among the source files. What \<^verbatim>\<open>Block\<close> calls on them is collected in one
  record of parameters, so that every statement about \<^verbatim>\<open>Block\<close> holds for whatever
  these functions compute:
  \<^item> \<open>BLOCK_SIZE_MAX\<close> is \<^verbatim>\<open>Policy.BLOCK_SIZE_MAX\<close>;
  \<^item> \<open>headerSize\<close>, \<open>interlinkSize\<close>, \<open>bodySize\<close> are the three
    \<^verbatim>\<open>serializedSize\<close> getters;
  \<^item> \<open>hashHeader\<close>, \<open>hashInterlink\<close>, \<open>hashBody\<close> are the three \<^verbatim>\<open>hash()\<close>
    methods, with \<^verbatim>\<open>await\<close> applied;
  \<^item> \<open>verifyProofOfWork\<close> and \<open>target\<close> are the method and the getter of the header;
  \<^item> \<open>getSenderAddr\<close> and \<open>verifySignature\<close> are the methods of a transaction;
  \<^item> \<open>getTargetHeight\<close> is \<^verbatim>\<open>BlockUtils.getTargetHeight\<close>, taken to return an integer;
  \<^item> \<open>difficultyToCompact\<close> is \<^verbatim>\<open>BlockUtils.difficultyToCompact\<close>.
\<close>

record externals =
  BLOCK_SIZE_MAX :: nat
  headerSize :: "BlockHeader \<Rightarrow> nat"
  interlinkSize :: "BlockInterlink \<Rightarrow> nat"
  bodySize :: "BlockBody \<Rightarrow> nat"
  hashHeader :: "BlockHeader \<Rightarrow> hash"
  hashInterlink :: "BlockInterlink \<Rightarrow> hash"
  hashBody :: "BlockBody \<Rightarrow> hash"
  verifyProofOfWork :: "BlockHeader \<Rightarrow> bool"
  target :: "BlockHeader \<Rightarrow> nat"
  getSenderAddr :: "Transaction \<Rightarrow> address"
  verifySignature :: "Transaction \<Rightarrow> bool"
  getTargetHeight :: "nat \<Rightarrow> int"
  difficultyToCompact :: "nat \<Rightarrow> 32 word"

text \<open>
  \<^verbatim>\<open>Math.pow(2, e)\<close> for an integer exponent, as an exact rational. The double of
  the source is this value for every exponent from -1074 to 1023; above that range it is
  \<^verbatim>\<open>Infinity\<close> and below it 0, and comparing a natural number below \<open>2^256\<close> with
  it has the same result as comparing with the exact power.
\<close>

definition Math_pow2 :: "int \<Rightarrow> rat" where
  "Math_pow2 e = (if 0 \<le> e then 2 ^ nat e else 1 / 2 ^ nat (- e))"

text \<open>
  Modelled from the spec: \<^verbatim>\<open>BlockUtils.isProofOfWork\<close> is not among the source
  files. Section 4.3 gives it as: the hash, read as an integer, is at most the target.
\<close>

definition isProofOfWork :: "hash \<Rightarrow> rat \<Rightarrow> bool" where
  "isProofOfWork h t \<longleftrightarrow> of_nat (unat h) \<le> t"

section \<open>The class Block\<close>

text \<open>The getters and \<^verbatim>\<open>hash()\<close> of lines 43 to 47, 243 to 245 and 299 to 301.\<close>

definition block_serializedSize :: "externals \<Rightarrow> Block \<Rightarrow> nat" where
  "block_serializedSize X b =
     headerSize X (header b) + interlinkSize X (interlink b) + bodySize X (body b)"

definition block_hash :: "externals \<Rightarrow> Block \<Rightarrow> hash" where
  "block_hash X b = hashHeader X (header b)"

definition block_target :: "externals \<Rightarrow> Block \<Rightarrow> nat" where
  "block_target X b = target X (header b)"

subsection \<open>verify\<close>

text \<open>
  The first loop of \<^verbatim>\<open>verify\<close> (lines 59 to 74). \<open>seen\<close> is the object
  \<^verbatim>\<open>senderPubKeys\<close>, a dictionary from keys to \<^verbatim>\<open>true\<close>; it is indexed by the
  public key itself, the conversion of a key to a property name (a method of the absent
  key class) being taken to be one-to-one. The
  result \<open>False\<close> is one of the two \<^verbatim>\<open>return false\<close> of the loop body, \<open>True\<close> is
  leaving the loop at its end.
\<close>

fun verify_senders :: "externals \<Rightarrow> (pubkey \<rightharpoonup> bool) \<Rightarrow> Transaction list \<Rightarrow> bool" where
  "verify_senders X seen [] = True"
| "verify_senders X seen (tx # txs) =
     (if seen (senderPubKey tx) = Some True then False
      else let seen' = seen(senderPubKey tx \<mapsto> True);
               txSenderAddr = getSenderAddr X tx
           in if recipientAddr tx = txSenderAddr then False
              else verify_senders X seen' txs)"

text \<open>The second loop (lines 97 to 102).\<close>

fun verify_signatures :: "externals \<Rightarrow> Transaction list \<Rightarrow> bool" where
  "verify_signatures X [] = True"
| "verify_signatures X (tx # txs) =
     (if \<not> verifySignature X tx then False else verify_signatures X txs)"

text \<open>
  \<^verbatim>\<open>verify()\<close> (lines 52 to 106): six guarded \<^verbatim>\<open>return false\<close> in the order of the
  source, then \<^verbatim>\<open>return true\<close>. The method contains no \<^verbatim>\<open>throw\<close>, and the calls of
  \<^verbatim>\<open>Log.w\<close> only write to the log (\<^verbatim>\<open>Log\<close>, and \<^verbatim>\<open>Blockchain\<close> that line 99
  names as tag, are classes of the repository outside the source files).
\<close>

definition verify :: "externals \<Rightarrow> Block \<Rightarrow> bool" where
  "verify X b =
     (if block_serializedSize X b > BLOCK_SIZE_MAX X then False
      else if \<not> verify_senders X Map.empty (transactions (body b)) then False
      else if \<not> verifyProofOfWork X (header b) then False
      else let bodyHash' = hashBody X (body b) in
      if bodyHash (header b) \<noteq> bodyHash' then False
      else let interlinkHash' = hashInterlink X (interlink b) in
      if interlinkHash (header b) \<noteq> interlinkHash' then False
      else if \<not> verify_signatures X (transactions (body b)) then False
      else True)"

subsection \<open>nextInterlink\<close>

text \<open>
  \<^verbatim>\<open>Block.GENESIS.HASH\<close> (line 320): the 32 bytes that the base64 text
  \<^verbatim>\<open>5eKwilmaRc8xCO79IXIFLPuuNOvfQ04BLMNenkhYfs0=\<close> encodes.
\<close>

definition GENESIS_HASH :: hash where
  "GENESIS_HASH = 0xe5e2b08a599a45cf3108eefd2172052cfbae34ebdf434e012cc35e9e48587ecd"

text \<open>
  The loop of lines 148 to 152, started with \<open>i = 1\<close> and \<open>depth = 0\<close>. Nothing in
  the source bounds it: for a hash that meets every target it does not end, which is
  the value \<open>None\<close>.
\<close>

partial_function (option) depth_loop :: "hash \<Rightarrow> int \<Rightarrow> int \<Rightarrow> int \<Rightarrow> int option" where
  "depth_loop h nextTargetHeight i depth =
     (if isProofOfWork h (Math_pow2 (nextTargetHeight - i))
      then depth_loop h nextTargetHeight (i + 1) i
      else Some depth)"

text \<open>The loop of lines 165 to 167, started with \<open>i = 0\<close>.\<close>

function push_hash :: "hash \<Rightarrow> int \<Rightarrow> int \<Rightarrow> element list \<Rightarrow> element list" where
  "push_hash h depth i hs =
     (if i < depth then push_hash h depth (i + 1) (hs @ [Hash h]) else hs)"
  by pat_completeness auto
termination
  by (relation "measure (\<lambda>(h, depth, i, hs). nat (depth - i))") auto

text \<open>
  The loop of lines 173 to 175, started with \<open>j = depth + offset + 1\<close>. The source
  does not compare \<open>j\<close> with 0; \<^verbatim>\<open>this.interlink.hashes[j]\<close> is the array read
  \<open>js_index\<close>.
\<close>

function push_tail :: "hash list \<Rightarrow> int \<Rightarrow> element list \<Rightarrow> element list" where
  "push_tail cur j hs =
     (if j < int (length cur) then push_tail cur (j + 1) (hs @ [js_index cur j]) else hs)"
  by pat_completeness auto
termination
  by (relation "measure (\<lambda>(cur, j, hs). nat (int (length cur) - j))") auto

text \<open>
  \<^verbatim>\<open>nextInterlink(nextTarget)\<close> up to its last line (lines 144 to 175): either the
  \<^verbatim>\<open>return this.interlink\<close> of line 157, or the array \<^verbatim>\<open>hashes\<close> as the two push
  loops leave it. \<open>None\<close> is a depth scan that does not end.
\<close>

datatype update = Unchanged BlockInterlink | Rebuilt "element list"

definition nextInterlink_hashes :: "externals \<Rightarrow> Block \<Rightarrow> nat \<Rightarrow> update option" where
  "nextInterlink_hashes X b nextTarget =
     (let hash = block_hash X b;
          nextTargetHeight = getTargetHeight X nextTarget
      in case depth_loop hash nextTargetHeight 1 0 of
           None \<Rightarrow> None
         | Some depth \<Rightarrow>
             let targetHeight = getTargetHeight X (block_target X b) in
             if depth = 0 \<and> targetHeight = nextTargetHeight then Some (Unchanged (interlink b))
             else
               let hashes0 = [Hash GENESIS_HASH];
                   hashes1 = push_hash hash depth 0 hashes0;
                   offset = targetHeight - nextTargetHeight;
                   hashes2 = push_tail (hashes (interlink b)) (depth + offset + 1) hashes1
               in Some (Rebuilt hashes2))"

text \<open>
  \<^verbatim>\<open>nextInterlink(nextTarget)\<close> (lines 144 to 178): on the rebuilding path line 177
  passes the array to the constructor. The value is what happens to the promise of the
  async method: \<open>None\<close> is a promise that never settles, \<open>Some (Inl e)\<close> one that is
  rejected with \<open>e\<close>, \<open>Some (Inr il)\<close> one that resolves to the interlink \<open>il\<close>.
\<close>

definition nextInterlink ::
  "externals \<Rightarrow> Block \<Rightarrow> nat \<Rightarrow> (error + BlockInterlink) option" where
  "nextInterlink X b nextTarget =
     (case nextInterlink_hashes X b nextTarget of
        None \<Rightarrow> None
      | Some (Unchanged il) \<Rightarrow> Some (Inr il)
      | Some (Rebuilt hs) \<Rightarrow> Some (new_BlockInterlink hs))"

subsection \<open>isSuccessorOf\<close>

text \<open>
  The value of an expression of line 130 before \<^verbatim>\<open>await\<close> is applied: an instance of
  BlockInterlink, or the promise that the call of an async method returns. Calling
  \<^verbatim>\<open>.hash()\<close> on an interlink gives its hash; a promise has no member \<^verbatim>\<open>hash\<close>,
  and calling what is not a function throws a TypeError.
\<close>

datatype jsvalue =
    InterlinkObject BlockInterlink
  | PromiseObject "(error + BlockInterlink) option"

definition call_hash :: "externals \<Rightarrow> jsvalue \<Rightarrow> error + hash" where
  "call_hash X v =
     (case v of
        InterlinkObject il \<Rightarrow> Inr (hashInterlink X il)
      | PromiseObject p \<Rightarrow> Inl (TypeError ''hash''))"

text \<open>
  \<^verbatim>\<open>isSuccessorOf(prevBlock)\<close> (lines 112 to 137). Line 130 is
  \<^verbatim>\<open>await prevBlock.nextInterlink(this.target).hash()\<close>: member access and call bind
  tighter than \<^verbatim>\<open>await\<close>, so \<^verbatim>\<open>.hash()\<close> is called on the value that the call of
  \<^verbatim>\<open>nextInterlink\<close> returns, and \<^verbatim>\<open>nextInterlink\<close> is declared \<^verbatim>\<open>async\<close> (line 144,
  documented to return a promise of a BlockInterlink).
\<close>

definition isSuccessorOf :: "externals \<Rightarrow> Block \<Rightarrow> Block \<Rightarrow> error + bool" where
  "isSuccessorOf X this prevBlock =
     (if unat (height (header this)) \<noteq> unat (height (header prevBlock)) + 1 then Inr False
      else if BlockHeader.timestamp (header this) < BlockHeader.timestamp (header prevBlock)
      then Inr False
      else let prevHash' = block_hash X prevBlock in
      if prevHash (header this) \<noteq> prevHash' then Inr False
      else case call_hash X (PromiseObject (nextInterlink X prevBlock (block_target X this))) of
             Inl e \<Rightarrow> Inl e
           | Inr interlinkHash' \<Rightarrow>
               if interlinkHash (header this) \<noteq> interlinkHash' then Inr False
               else Inr True)"

subsection \<open>The genesis block\<close>

text \<open>
  \<^verbatim>\<open>Block.GENESIS\<close> (lines 306 to 318). The arguments of the header are, in the order
  of the fields: the null hash, three hashes given in base64 (written here as the
  32 bytes they encode), \<^verbatim>\<open>BlockUtils.difficultyToCompact(1)\<close>, height 1, timestamp 0
  and nonce 38760. The interlink is the empty array, the body has the miner address
  given in base64 (20 bytes) and no transaction.
\<close>

definition GENESIS :: "externals \<Rightarrow> Block" where
  "GENESIS X =
     \<lparr>header =
        \<lparr>prevHash = 0,
         interlinkHash = 0xe3b0c44298fc1c149afbf4c8996fb92427ae41e4649b934ca495991b7852b855,
         bodyHash = 0x5e68eef06df6ce33e5e26e94fd42c1dcdca8cecd81915817da4f5fcb9fc77848,
         accountsHash = 0xdce5c0dbd64b8cc8b0cdbe7676c792b911f845e85af65021e2a7cf2e6e92176f,
         nBits = difficultyToCompact X 1,
         height = 1,
         timestamp = 0,
         nonce = 38760\<rparr>,
      interlink = \<lparr>hashes = []\<rparr>,
      body = \<lparr>minerAddr = 0x91e9240f415223982edc345532630710e94a7f52, transactions = []\<rparr>\<rparr>"

section \<open>The depth of the specification\<close>

text \<open>
  The specification describes the depth by a property instead of a loop: the hash
  meets the targets \<open>2^(hn - 1)\<close>, ..., \<open>2^(hn - d)\<close>, and \<open>d\<close> is the largest
  integer that is at least 0 and has this property.
\<close>

definition meets_levels :: "hash \<Rightarrow> int \<Rightarrow> int \<Rightarrow> bool" where
  "meets_levels h hn d \<longleftrightarrow> (\<forall>i\<in>{1..d}. isProofOfWork h (Math_pow2 (hn - i)))"

definition largest_depth :: "hash \<Rightarrow> int \<Rightarrow> int \<Rightarrow> bool" where
  "largest_depth h hn d \<longleftrightarrow>
     0 \<le> d \<and> meets_levels h hn d \<and> (\<forall>d'. meets_levels h hn d' \<longrightarrow> d' \<le> d)"

section \<open>Concrete instances\<close>

text \<open>
  An instance of the parameters for the concrete blocks below: every header has the
  hash \<open>h\<close> and the target \<open>t\<close>, the height of a target is
  \<open>\<lceil>log\<^sub>2 t\<rceil>\<close> as section 4.3 has it (\<^const>\<open>ceillog2\<close>), and the
  proof-of-work check of a header is \<open>isProofOfWork\<close> of that hash and target. The
  other functions are simple stand-ins: the hash of an interlink or of a body is the
  number of its entries, the sender address is the length of the key, a signature
  verifies when it is not empty.
\<close>

definition example_externals :: "hash \<Rightarrow> nat \<Rightarrow> externals" where
  "example_externals h t =
     \<lparr>BLOCK_SIZE_MAX = 1000000,
      headerSize = (\<lambda>hdr. 144),
      interlinkSize = (\<lambda>il. 1 + 32 * length (hashes il)),
      bodySize = (\<lambda>bd. 22 + 165 * length (transactions bd)),
      hashHeader = (\<lambda>hdr. h),
      hashInterlink = (\<lambda>il. of_nat (length (hashes il))),
      hashBody = (\<lambda>bd. of_nat (length (transactions bd))),
      verifyProofOfWork = (\<lambda>hdr. isProofOfWork h (of_nat t)),
      target = (\<lambda>hdr. t),
      getSenderAddr = (\<lambda>tx. of_nat (length (senderPubKey tx))),
      verifySignature = (\<lambda>tx. signature tx \<noteq> []),
      getTargetHeight = (\<lambda>t'. int (ceillog2 t')),
      difficultyToCompact = (\<lambda>d. 0x1f010000)\<rparr>"

text \<open>
  Two targets: \<open>2^240\<close>, of height 240, and the eight times easier \<open>2^243\<close>, of
  height 243.
\<close>

definition example_target :: nat where
  "example_target = 2 ^ 240"

definition eased_target :: nat where
  "eased_target = 2 ^ 243"

text \<open>The hash \<open>2^237 + 5\<close>: it meets \<open>2^239\<close> and \<open>2^238\<close> and not \<open>2^237\<close>.\<close>

definition example_hash :: hash where
  "example_hash = 0x200000000000000000000000000000000000000000000000000000000005"

definition example_header :: BlockHeader where
  "example_header =
     \<lparr>prevHash = GENESIS_HASH, interlinkHash = 5, bodyHash = 2, accountsHash = 0,
      nBits = 0x1f010000, height = 2, timestamp = 0, nonce = 0\<rparr>"

definition example_interlink :: BlockInterlink where
  "example_interlink =
     \<lparr>hashes = [GENESIS_HASH, 11, 12, 13, 14]\<rparr>"

definition example_transactions :: "Transaction list" where
  "example_transactions =
     [\<lparr>senderPubKey = [1], recipientAddr = 7, signature = [1]\<rparr>,
      \<lparr>senderPubKey = [2], recipientAddr = 8, signature = [2]\<rparr>]"

definition example_block :: Block where
  "example_block =
     \<lparr>header = example_header, interlink = example_interlink,
      body = \<lparr>minerAddr = 0x91e9240f415223982edc345532630710e94a7f52,
              transactions = example_transactions\<rparr>\<rparr>"

text \<open>The example block with the first sender in both transactions.\<close>

definition repeated_sender_block :: Block where
  "repeated_sender_block =
     example_block\<lparr>body :=
       \<lparr>minerAddr = 0x91e9240f415223982edc345532630710e94a7f52,
        transactions =
          [\<lparr>senderPubKey = [1], recipientAddr = 7, signature = [1]\<rparr>,
           \<lparr>senderPubKey = [1], recipientAddr = 8, signature = [2]\<rparr>]\<rparr>\<rparr>"

text \<open>
  A child for the genesis block: height 2, the timestamp of the genesis block, its hash as
  \<open>prevHash\<close>, and as \<open>interlinkHash\<close> the hash of the empty interlink in the
  instance above.
\<close>

definition genesis_child :: Block where
  "genesis_child =
     \<lparr>header =
        \<lparr>prevHash = GENESIS_HASH, interlinkHash = 0, bodyHash = 0, accountsHash = 0,
         nBits = 0x1f010000, height = 2, timestamp = 0, nonce = 0\<rparr>,
      interlink = \<lparr>hashes = []\<rparr>,
      body = \<lparr>minerAddr = 0x91e9240f415223982edc345532630710e94a7f52, transactions = []\<rparr>\<rparr>"

section \<open>Properties of the loops\<close>

declare push_hash.simps [simp del] push_tail.simps [simp del]

lemma be_bytes_numeral:
  "be_bytes (numeral k) v = be_bytes (pred_numeral k) (v div 256) @ [of_nat (v mod 256)]"
  by (metis be_bytes.simps(2) numeral_eq_Suc)

lemma be_bytes_1: "be_bytes 1 v = [of_nat (v mod 256)]"
  by (metis One_nat_def append_Nil be_bytes.simps(1) be_bytes.simps(2))

lemma serialize_raises: "\<exists>e b. serialize enc a buf = Throws e b"
  by (simp add: serialize_def Let_def split: outcome.split)

lemma unserialize_raises: "\<exists>e. unserialize dec buf = Inl e"
  by (simp add: unserialize_def split: sum.split prod.split)

lemma verify_senders_iff:
  "verify_senders X seen txs \<longleftrightarrow>
     distinct (map senderPubKey txs)
     \<and> (\<forall>tx\<in>set txs. seen (senderPubKey tx) \<noteq> Some True)
     \<and> (\<forall>tx\<in>set txs. recipientAddr tx \<noteq> getSenderAddr X tx)"
proof (induction txs arbitrary: seen)
  case Nil
  show ?case by simp
next
  case (Cons tx txs)
  show ?case
    by (auto simp: Cons.IH Let_def image_iff)
qed

lemma verify_signatures_iff:
  "verify_signatures X txs \<longleftrightarrow> (\<forall>tx\<in>set txs. verifySignature X tx)"
  by (induction txs) auto

lemma push_hash_eq: "push_hash h depth i hs = hs @ replicate (nat (depth - i)) (Hash h)"
proof (induction h depth i hs rule: push_hash.induct)
  case (1 h depth i hs)
  show ?case
  proof (cases "i < depth")
    case True
    then have n: "nat (depth - i) = Suc (nat (depth - (i + 1)))" by simp
    have "push_hash h depth i hs = push_hash h depth (i + 1) (hs @ [Hash h])"
      using True by (subst push_hash.simps) simp
    also have "\<dots> = (hs @ [Hash h]) @ replicate (nat (depth - (i + 1))) (Hash h)"
      using True by (rule "1.IH")
    finally show ?thesis by (simp add: n)
  next
    case False
    then show ?thesis by (subst push_hash.simps) simp
  qed
qed

lemma push_tail_eq:
  "push_tail cur j hs = hs @ map (js_index cur) [j .. int (length cur) - 1]"
proof (induction cur j hs rule: push_tail.induct)
  case (1 cur j hs)
  show ?case
  proof (cases "j < int (length cur)")
    case True
    then have u: "[j .. int (length cur) - 1] = j # [j + 1 .. int (length cur) - 1]"
      by (simp add: upto_rec1)
    have "push_tail cur j hs = push_tail cur (j + 1) (hs @ [js_index cur j])"
      using True by (subst push_tail.simps) simp
    also have "\<dots> = (hs @ [js_index cur j]) @ map (js_index cur) [j + 1 .. int (length cur) - 1]"
      using True by (rule "1.IH")
    finally show ?thesis by (simp add: u)
  next
    case False
    then show ?thesis by (subst push_tail.simps) simp
  qed
qed

lemma depth_loop_finds:
  assumes "i \<le> d + 1"
    and "\<forall>k. i \<le> k \<and> k \<le> d \<longrightarrow> isProofOfWork h (Math_pow2 (hn - k))"
    and "\<not> isProofOfWork h (Math_pow2 (hn - (d + 1)))"
  shows "depth_loop h hn i (i - 1) = Some d"
  using assms
proof (induction "nat (d + 1 - i)" arbitrary: i)
  case 0
  then have "i = d + 1" by simp
  then show ?case using "0.prems"(3) by (subst depth_loop.simps) simp
next
  case (Suc n)
  then have le: "i \<le> d" by linarith
  then have p: "isProofOfWork h (Math_pow2 (hn - i))" using Suc.prems(2) by simp
  have "depth_loop h hn (i + 1) ((i + 1) - 1) = Some d"
  proof (rule Suc.hyps(1))
    show "n = nat (d + 1 - (i + 1))" using Suc.hyps(2) by linarith
    show "i + 1 \<le> d + 1" using le by simp
    show "\<forall>k. i + 1 \<le> k \<and> k \<le> d \<longrightarrow> isProofOfWork h (Math_pow2 (hn - k))"
      using Suc.prems(2) by simp
    show "\<not> isProofOfWork h (Math_pow2 (hn - (d + 1)))" by (rule Suc.prems(3))
  qed
  then have "depth_loop h hn (i + 1) i = Some d" by simp
  then show ?case using p by (subst depth_loop.simps) simp
qed

lemma nonzero_hash_fails:
  assumes "h \<noteq> 0" and "e < 0"
  shows "\<not> isProofOfWork h (Math_pow2 e)"
proof -
  have "1 \<le> unat h" using assms(1) by (simp add: unat_eq_0 Suc_le_eq unat_gt_0)
  then have "(of_nat 1 :: rat) \<le> of_nat (unat h)" by (rule of_nat_mono)
  then have one: "(1::rat) \<le> of_nat (unat h)" by (simp only: of_nat_1)
  have "(1::rat) < 2 ^ nat (- e)" using assms(2) by simp
  then have "Math_pow2 e < 1" using assms(2) by (simp add: Math_pow2_def)
  with one show ?thesis unfolding isProofOfWork_def by linarith
qed

lemma zero_hash_meets: "isProofOfWork 0 (Math_pow2 e)"
  by (simp add: isProofOfWork_def Math_pow2_def)

lemma depth_loop_zero:
  assumes "\<not> isProofOfWork h (Math_pow2 (hn - 1))"
  shows "depth_loop h hn 1 0 = Some 0"
  using assms by (subst depth_loop.simps) simp

lemma largest_depth_next:
  assumes "largest_depth h hn d"
  shows "\<not> isProofOfWork h (Math_pow2 (hn - (d + 1)))"
proof
  assume p: "isProofOfWork h (Math_pow2 (hn - (d + 1)))"
  have m: "\<forall>i\<in>{1..d}. isProofOfWork h (Math_pow2 (hn - i))"
    using assms unfolding largest_depth_def meets_levels_def by blast
  have "meets_levels h hn (d + 1)"
    unfolding meets_levels_def
  proof
    fix i assume "i \<in> {1..d + 1}"
    then have "i \<in> {1..d} \<or> i = d + 1" by auto
    then show "isProofOfWork h (Math_pow2 (hn - i))"
      using m p by blast
  qed
  moreover have "\<forall>d'. meets_levels h hn d' \<longrightarrow> d' \<le> d"
    using assms unfolding largest_depth_def by blast
  ultimately have "d + 1 \<le> d" by blast
  then show False by simp
qed

lemma depth_loop_largest:
  assumes "largest_depth h hn d"
  shows "depth_loop h hn 1 0 = Some d"
proof -
  have d0: "0 \<le> d" and m: "\<forall>i\<in>{1..d}. isProofOfWork h (Math_pow2 (hn - i))"
    using assms unfolding largest_depth_def meets_levels_def by blast+
  have "depth_loop h hn 1 (1 - 1) = Some d"
  proof (rule depth_loop_finds)
    show "1 \<le> d + 1" using d0 by simp
    show "\<forall>k. 1 \<le> k \<and> k \<le> d \<longrightarrow> isProofOfWork h (Math_pow2 (hn - k))"
      using m by simp
    show "\<not> isProofOfWork h (Math_pow2 (hn - (d + 1)))"
      using assms by (rule largest_depth_next)
  qed
  then show ?thesis by simp
qed

lemma largest_depthI:
  assumes "0 \<le> d"
    and "\<forall>k. 1 \<le> k \<and> k \<le> d \<longrightarrow> isProofOfWork h (Math_pow2 (hn - k))"
    and "\<not> isProofOfWork h (Math_pow2 (hn - (d + 1)))"
  shows "largest_depth h hn d"
  unfolding largest_depth_def
proof (intro conjI allI impI)
  show "0 \<le> d" by (rule assms(1))
  show "meets_levels h hn d"
    unfolding meets_levels_def using assms(2) by simp
  fix d' assume m: "meets_levels h hn d'"
  show "d' \<le> d"
  proof (rule ccontr)
    assume "\<not> d' \<le> d"
    then have "d + 1 \<in> {1..d'}" using assms(1) by simp
    with m have "isProofOfWork h (Math_pow2 (hn - (d + 1)))"
      unfolding meets_levels_def by blast
    then show False using assms(3) by simp
  qed
qed

lemma largest_depth_unique:
  assumes "largest_depth h hn d" and "largest_depth h hn d'"
  shows "d = d'"
proof -
  have "d' \<le> d" using assms unfolding largest_depth_def by blast
  moreover have "d \<le> d'" using assms unfolding largest_depth_def by blast
  ultimately show ?thesis by simp
qed

text \<open>A hash that is not zero has a largest depth, for every height.\<close>

lemma largest_depth_exists:
  assumes "h \<noteq> 0"
  shows "\<exists>d. largest_depth h hn d"
proof -
  let ?F = "\<lambda>n::nat. \<not> isProofOfWork h (Math_pow2 (hn - (1 + int n)))"
  have ex: "?F (nat hn)"
    using assms by (rule nonzero_hash_fails) simp
  define n0 where "n0 = (LEAST n. ?F n)"
  have fail: "?F n0" unfolding n0_def using ex by (rule LeastI)
  have before: "\<And>m. m < n0 \<Longrightarrow> \<not> ?F m"
    unfolding n0_def by (rule not_less_Least)
  show ?thesis
  proof (intro exI largest_depthI)
    show "0 \<le> int n0" by simp
    show "\<forall>k. 1 \<le> k \<and> k \<le> int n0 \<longrightarrow> isProofOfWork h (Math_pow2 (hn - k))"
    proof (intro allI impI)
      fix k :: int assume k: "1 \<le> k \<and> k \<le> int n0"
      then have "nat (k - 1) < n0" by linarith
      then have "\<not> ?F (nat (k - 1))" by (rule before)
      moreover have "1 + int (nat (k - 1)) = k" using k by simp
      ultimately show "isProofOfWork h (Math_pow2 (hn - k))" by simp
    qed
    show "\<not> isProofOfWork h (Math_pow2 (hn - (int n0 + 1)))"
      using fail by (simp add: add.commute)
  qed
qed

text \<open>The constructor accepts exactly the arrays of hashes.\<close>

lemma to_hashes_map: "to_hashes (map Hash hs) = Some hs"
  by (induction hs) simp_all

lemma to_hashes_Undefined: "Undefined \<in> set es \<Longrightarrow> to_hashes es = None"
proof (induction es)
  case Nil
  then show ?case by simp
next
  case (Cons e es)
  then show ?case by (cases e) (auto split: option.split)
qed

text \<open>From a start index that is not negative, the tail is the current interlink without its first entries.\<close>

lemma tail_in_range:
  assumes "0 \<le> s"
  shows "map (js_index cur) [s .. int (length cur) - 1] = map Hash (drop (nat s) cur)"
proof (rule nth_equalityI)
  show "length (map (js_index cur) [s..int (length cur) - 1]) = length (map Hash (drop (nat s) cur))"
    using assms by simp
next
  fix k assume "k < length (map (js_index cur) [s..int (length cur) - 1])"
  then have k: "s + int k \<le> int (length cur) - 1" by simp
  then have "[s..int (length cur) - 1] ! k = s + int k" by (rule nth_upto)
  moreover have "nat (s + int k) = nat s + k" using assms by simp
  ultimately show "map (js_index cur) [s..int (length cur) - 1] ! k
      = map Hash (drop (nat s) cur) ! k"
    using k assms by (simp add: js_index_def)
qed

text \<open>
  The paths of \<^verbatim>\<open>nextInterlink\<close>: the current interlink; the array built by the two push
  loops, in closed form; and, for a start index that is not negative, the interlink that
  the constructor makes of it.
\<close>

lemma nextInterlink_hashes_unchanged:
  assumes "getTargetHeight X (block_target X b) = getTargetHeight X nextTarget"
    and "\<not> isProofOfWork (block_hash X b) (Math_pow2 (getTargetHeight X nextTarget - 1))"
  shows "nextInterlink_hashes X b nextTarget = Some (Unchanged (interlink b))"
  using assms by (simp add: nextInterlink_hashes_def Let_def depth_loop_zero)

lemma nextInterlink_unchanged:
  assumes "getTargetHeight X (block_target X b) = getTargetHeight X nextTarget"
    and "\<not> isProofOfWork (block_hash X b) (Math_pow2 (getTargetHeight X nextTarget - 1))"
  shows "nextInterlink X b nextTarget = Some (Inr (interlink b))"
  using nextInterlink_hashes_unchanged [OF assms] by (simp add: nextInterlink_def)

lemma nextInterlink_hashes_rebuilt:
  assumes "depth_loop (block_hash X b) (getTargetHeight X nextTarget) 1 0 = Some d"
    and "\<not> (d = 0 \<and> getTargetHeight X (block_target X b) = getTargetHeight X nextTarget)"
  shows "nextInterlink_hashes X b nextTarget =
     Some (Rebuilt ([Hash GENESIS_HASH] @ replicate (nat d) (Hash (block_hash X b))
        @ map (js_index (hashes (interlink b)))
            [d + (getTargetHeight X (block_target X b) - getTargetHeight X nextTarget) + 1
             .. int (length (hashes (interlink b))) - 1]))"
  using assms by (auto simp: nextInterlink_hashes_def Let_def push_hash_eq push_tail_eq)

lemma nextInterlink_in_range:
  assumes "depth_loop (block_hash X b) (getTargetHeight X nextTarget) 1 0 = Some d"
    and "\<not> (d = 0 \<and> getTargetHeight X (block_target X b) = getTargetHeight X nextTarget)"
    and "0 \<le> d + (getTargetHeight X (block_target X b) - getTargetHeight X nextTarget) + 1"
  shows "nextInterlink X b nextTarget =
     Some (Inr \<lparr>hashes = [GENESIS_HASH] @ replicate (nat d) (block_hash X b)
        @ drop (nat (d + (getTargetHeight X (block_target X b)
                          - getTargetHeight X nextTarget) + 1))
            (hashes (interlink b))\<rparr>)"
proof -
  let ?s = "d + (getTargetHeight X (block_target X b) - getTargetHeight X nextTarget) + 1"
  let ?hs = "[GENESIS_HASH] @ replicate (nat d) (block_hash X b)
      @ drop (nat ?s) (hashes (interlink b))"
  have "[Hash GENESIS_HASH] @ replicate (nat d) (Hash (block_hash X b))
        @ map (js_index (hashes (interlink b))) [?s .. int (length (hashes (interlink b))) - 1]
      = map Hash ?hs"
    using assms(3) by (simp add: tail_in_range)
  then have "nextInterlink_hashes X b nextTarget = Some (Rebuilt (map Hash ?hs))"
    using nextInterlink_hashes_rebuilt [OF assms(1,2)] by simp
  then show ?thesis
    by (simp only: nextInterlink_def new_BlockInterlink_def to_hashes_map
        option.simps update.simps)
qed

text \<open>
  In the words of the specification: with the largest depth \<open>d\<close>, off the fast path and
  from a start index that is not negative, the next interlink is the genesis hash, the
  hash of the block \<open>d\<close> times, and the current entries from that index on.
\<close>

lemma nextInterlink_largest_depth_in_range:
  assumes "largest_depth (block_hash X b) (getTargetHeight X nextTarget) d"
    and "\<not> (d = 0 \<and> getTargetHeight X (block_target X b) = getTargetHeight X nextTarget)"
    and "0 \<le> d + (getTargetHeight X (block_target X b) - getTargetHeight X nextTarget) + 1"
  shows "nextInterlink X b nextTarget =
     Some (Inr \<lparr>hashes = [GENESIS_HASH] @ replicate (nat d) (block_hash X b)
        @ drop (nat (d + (getTargetHeight X (block_target X b)
                          - getTargetHeight X nextTarget) + 1))
            (hashes (interlink b))\<rparr>)"
  using depth_loop_largest [OF assms(1)] assms(2,3) by (rule nextInterlink_in_range)

text \<open>The scan never ends for the null hash: a promise of \<^verbatim>\<open>nextInterlink\<close> that never settles.\<close>

lemma depth_loop_zero_hash:
  assumes "depth_loop h hn i dep = Some d"
  shows "h \<noteq> 0"
proof (rule depth_loop.raw_induct [where P = "\<lambda>h hn i dep d. h \<noteq> 0", OF _ assms])
  fix f :: "hash \<Rightarrow> int \<Rightarrow> int \<Rightarrow> int \<Rightarrow> int option" and h hn i dep d
  assume ih: "\<And>h hn i dep d. f h hn i dep = Some d \<Longrightarrow> h \<noteq> 0"
    and body: "(if isProofOfWork h (Math_pow2 (hn - i)) then f h hn (i + 1) i else Some dep)
                 = Some d"
  show "h \<noteq> 0"
  proof (cases "isProofOfWork h (Math_pow2 (hn - i))")
    case True
    then have "f h hn (i + 1) i = Some d" using body by simp
    then show ?thesis by (rule ih)
  next
    case False
    then show ?thesis using zero_hash_meets by auto
  qed
qed

lemma nextInterlink_zero_hash:
  assumes "block_hash X b = 0"
  shows "nextInterlink X b nextTarget = None"
proof -
  have "depth_loop (block_hash X b) (getTargetHeight X nextTarget) 1 0 = None"
    using depth_loop_zero_hash assms
    by (cases "depth_loop (block_hash X b) (getTargetHeight X nextTarget) 1 0") auto
  then show ?thesis by (simp add: nextInterlink_def nextInterlink_hashes_def Let_def)
qed

section \<open>Facts about the concrete instances\<close>

lemma example_block_hash: "block_hash (example_externals h t) b = h"
  by (simp add: block_hash_def example_externals_def)

lemma example_block_target: "block_target (example_externals h t) b = t"
  by (simp add: block_target_def example_externals_def)

lemma example_height: "getTargetHeight (example_externals h t) (2 ^ k) = int k"
  by (simp add: example_externals_def)

lemma example_heights:
  "getTargetHeight (example_externals h t) example_target = 240"
  "getTargetHeight (example_externals h t) eased_target = 243"
  using example_height [of h t 240] example_height [of h t 243]
  by (simp_all only: example_target_def eased_target_def of_nat_numeral)

lemma genesis_hash_level:
  "k \<le> 255 \<Longrightarrow> \<not> isProofOfWork GENESIS_HASH (Math_pow2 (int k))"
proof -
  assume "k \<le> 255"
  then have "(2::rat) ^ k \<le> 2 ^ 255" by (intro power_increasing) simp_all
  moreover have "(2::rat) ^ 255 < of_nat (unat GENESIS_HASH)"
    by (simp add: GENESIS_HASH_def)
  ultimately show ?thesis by (simp add: isProofOfWork_def Math_pow2_def)
qed

lemma example_hash_levels:
  "isProofOfWork example_hash (Math_pow2 239)"
  "isProofOfWork example_hash (Math_pow2 238)"
  "\<not> isProofOfWork example_hash (Math_pow2 237)"
  by (simp_all add: isProofOfWork_def Math_pow2_def example_hash_def)

lemma example_largest_depth: "largest_depth example_hash 240 2"
proof (rule largest_depthI)
  show "(0::int) \<le> 2" by simp
  show "\<forall>k. 1 \<le> k \<and> k \<le> 2 \<longrightarrow> isProofOfWork example_hash (Math_pow2 (240 - k))"
  proof (intro allI impI)
    fix k :: int assume "1 \<le> k \<and> k \<le> 2"
    then have "k = 1 \<or> k = 2" by auto
    then show "isProofOfWork example_hash (Math_pow2 (240 - k))"
      using example_hash_levels(1,2) by auto
  qed
  show "\<not> isProofOfWork example_hash (Math_pow2 (240 - (2 + 1)))"
    using example_hash_levels(3) by simp
qed

lemma genesis_hash_depth: "largest_depth GENESIS_HASH 243 0"
proof (rule largest_depthI)
  show "(0::int) \<le> 0" by simp
  show "\<forall>k. 1 \<le> k \<and> k \<le> 0 \<longrightarrow> isProofOfWork GENESIS_HASH (Math_pow2 (243 - k))"
    by auto
  show "\<not> isProofOfWork GENESIS_HASH (Math_pow2 (243 - (0 + 1)))"
    using genesis_hash_level [of 242] by simp
qed

lemma example_block_hashes:
  "hashes (interlink example_block) = [GENESIS_HASH, 11, 12, 13, 14]"
  by (simp add: example_block_def example_interlink_def)

text \<open>
  The fields of the genesis block as lines 306 to 318 set them: height 1, the null hash as
  predecessor, the compact form of difficulty 1, an empty interlink, no transaction and the
  fixed miner address.
\<close>

lemma GENESIS_fields:
  "height (header (GENESIS X)) = 1
   \<and> prevHash (header (GENESIS X)) = 0
   \<and> nBits (header (GENESIS X)) = difficultyToCompact X 1
   \<and> hashes (interlink (GENESIS X)) = []
   \<and> transactions (body (GENESIS X)) = []
   \<and> minerAddr (body (GENESIS X)) = 0x91e9240f415223982edc345532630710e94a7f52"
  by (simp add: GENESIS_def)

text \<open>
  The hash stored as \<^verbatim>\<open>Block.GENESIS.HASH\<close> is above \<open>2^255\<close>. Where it is the hash
  of the genesis header and the target of that header is at most \<open>2^255\<close>, the hash does
  not meet the target in the sense of \<open>isProofOfWork\<close>.
\<close>

lemma GENESIS_hash_above_target:
  assumes "hashHeader X (header (GENESIS X)) = GENESIS_HASH"
    and "target X (header (GENESIS X)) \<le> 2 ^ 255"
  shows "\<not> isProofOfWork (block_hash X (GENESIS X)) (of_nat (block_target X (GENESIS X)))"
proof -
  have "(of_nat (target X (header (GENESIS X))) :: rat) \<le> of_nat (2 ^ 255)"
    using assms(2) by (rule of_nat_mono)
  moreover have "(of_nat (2 ^ 255) :: rat) < of_nat (unat GENESIS_HASH)"
    by (simp add: GENESIS_HASH_def)
  ultimately show ?thesis
    using assms(1) by (simp add: isProofOfWork_def block_hash_def block_target_def)
qed

text \<open>
  Whatever the two blocks are, \<^verbatim>\<open>isSuccessorOf\<close> does not return \<^verbatim>\<open>true\<close>: it
  returns \<^verbatim>\<open>false\<close> at one of the first three checks or throws at line 130.
\<close>

lemma isSuccessorOf_never_true: "isSuccessorOf X this prevBlock \<noteq> Inr True"
  by (simp add: isSuccessorOf_def call_hash_def Let_def)

section \<open>The claims\<close>

text \<open>
  Claim C1. For every block, \<^verbatim>\<open>verify()\<close> returns true if and only if all seven
  rules hold: the serialized size is at most \<open>BLOCK_SIZE_MAX\<close>; no two transactions
  share a sender public key; no transaction has as recipient the address of its sender;
  the header passes the proof-of-work check; the body hash of the header is the hash of
  the body; the interlink hash of the header is the hash of the interlink; every
  signature verifies. The result is a truth value in every case, so a violated rule gives
  \<open>False\<close> and nothing is thrown.
\<close>

theorem verify_iff:
  "verify X b \<longleftrightarrow>
     block_serializedSize X b \<le> BLOCK_SIZE_MAX X
     \<and> distinct (map senderPubKey (transactions (body b)))
     \<and> (\<forall>tx\<in>set (transactions (body b)). recipientAddr tx \<noteq> getSenderAddr X tx)
     \<and> verifyProofOfWork X (header b)
     \<and> bodyHash (header b) = hashBody X (body b)
     \<and> interlinkHash (header b) = hashInterlink X (interlink b)
     \<and> (\<forall>tx\<in>set (transactions (body b)). verifySignature X tx)"
  unfolding verify_def verify_senders_iff verify_signatures_iff Let_def
  by (auto simp: not_less)

text \<open>
  Two instances of C1: the example block, with two transactions of different senders,
  passes all seven rules; the same block with one sender in both transactions is rejected.
\<close>

theorem verify_iff_witness:
  "verify (example_externals example_hash example_target) example_block
   \<and> \<not> verify (example_externals example_hash example_target) repeated_sender_block"
proof -
  have "verify (example_externals example_hash example_target) example_block"
    using verify_iff [of "example_externals example_hash example_target" example_block]
    by (simp add: example_externals_def example_block_def example_header_def
        example_interlink_def example_transactions_def block_serializedSize_def
        isProofOfWork_def example_hash_def example_target_def)
  moreover have "\<not> verify (example_externals example_hash example_target) repeated_sender_block"
    using verify_iff [of "example_externals example_hash example_target" repeated_sender_block]
    by (simp add: repeated_sender_block_def)
  ultimately show ?thesis by simp
qed

text \<open>
  Claim C2. The claim is that \<^verbatim>\<open>child.isSuccessorOf(prev)\<close> returns true exactly when
  the height is one more, the timestamp is not smaller, \<open>prevHash\<close> is the hash of the
  parent and \<open>interlinkHash\<close> is the hash of \<^verbatim>\<open>prev.nextInterlink(child.target)\<close>.
  The code does not do this: for the child of the genesis block below all four conditions
  hold, and the call throws the TypeError of line 130.
\<close>

theorem isSuccessorOf_genesis_child:
  "unat (height (header genesis_child))
     = unat (height (header (GENESIS (example_externals GENESIS_HASH example_target)))) + 1
   \<and> BlockHeader.timestamp (header genesis_child)
       \<ge> BlockHeader.timestamp (header (GENESIS (example_externals GENESIS_HASH example_target)))
   \<and> prevHash (header genesis_child)
       = block_hash (example_externals GENESIS_HASH example_target)
           (GENESIS (example_externals GENESIS_HASH example_target))
   \<and> nextInterlink (example_externals GENESIS_HASH example_target)
         (GENESIS (example_externals GENESIS_HASH example_target))
         (block_target (example_externals GENESIS_HASH example_target) genesis_child)
       = Some (Inr \<lparr>hashes = []\<rparr>)
   \<and> interlinkHash (header genesis_child)
       = hashInterlink (example_externals GENESIS_HASH example_target) \<lparr>hashes = []\<rparr>
   \<and> isSuccessorOf (example_externals GENESIS_HASH example_target) genesis_child
         (GENESIS (example_externals GENESIS_HASH example_target))
       = Inl (TypeError ''hash'')"
proof -
  let ?X = "example_externals GENESIS_HASH example_target"
  have t: "getTargetHeight ?X (block_target ?X (GENESIS ?X))
      = getTargetHeight ?X (block_target ?X genesis_child)"
    by (simp only: example_block_target)
  have p: "\<not> isProofOfWork (block_hash ?X (GENESIS ?X))
               (Math_pow2 (getTargetHeight ?X (block_target ?X genesis_child) - 1))"
    using genesis_hash_level [of 239]
    by (simp add: example_block_hash example_block_target example_heights)
  have n: "nextInterlink ?X (GENESIS ?X) (block_target ?X genesis_child)
      = Some (Inr \<lparr>hashes = []\<rparr>)"
    using nextInterlink_unchanged [OF t p] by (simp add: GENESIS_def)
  have c1: "unat (height (header genesis_child)) = unat (height (header (GENESIS ?X))) + 1"
    by (simp add: genesis_child_def GENESIS_def)
  have c2: "BlockHeader.timestamp (header genesis_child)
      \<ge> BlockHeader.timestamp (header (GENESIS ?X))"
    by (simp add: genesis_child_def GENESIS_def)
  have c3: "prevHash (header genesis_child) = block_hash ?X (GENESIS ?X)"
    by (simp add: genesis_child_def example_block_hash)
  have c4: "interlinkHash (header genesis_child) = hashInterlink ?X \<lparr>hashes = []\<rparr>"
    by (simp add: genesis_child_def example_externals_def)
  have s: "isSuccessorOf ?X genesis_child (GENESIS ?X) = Inl (TypeError ''hash'')"
    using c1 c2 c3 by (simp add: isSuccessorOf_def call_hash_def Let_def)
  show ?thesis
    using c1 c2 c3 n c4 s by (intro conjI)
qed

text \<open>
  Claim C3. The claim is that, whenever the fast path does not apply,
  \<^verbatim>\<open>nextInterlink(nextTarget)\<close> is the genesis hash, then the hash of the block \<open>d\<close>
  times, then the entries of the current interlink at the indices \<open>d + offset + 1\<close> to
  \<open>L - 1\<close>, where \<open>d\<close> is the largest depth and \<open>offset\<close> the height of the block's
  target minus that of \<open>nextTarget\<close>. The code does not do this for every next target:
  for the example block, of target height 240 and with a hash of largest depth 0, and a
  next target of height 243, the offset is -3, the fast path does not apply, and the call
  returns no interlink: the promise is rejected.
\<close>

theorem nextInterlink_eased_rejected:
  "largest_depth (block_hash (example_externals GENESIS_HASH example_target) example_block)
      (getTargetHeight (example_externals GENESIS_HASH example_target) eased_target) 0
   \<and> getTargetHeight (example_externals GENESIS_HASH example_target)
         (block_target (example_externals GENESIS_HASH example_target) example_block)
       - getTargetHeight (example_externals GENESIS_HASH example_target) eased_target = - 3
   \<and> nextInterlink (example_externals GENESIS_HASH example_target) example_block eased_target
       = Some (Inl MalformedBlock)"
proof -
  let ?X = "example_externals GENESIS_HASH example_target"
  have hc: "getTargetHeight ?X (block_target ?X example_block) = 240"
    by (simp only: example_block_target example_heights)
  have ld: "largest_depth (block_hash ?X example_block) (getTargetHeight ?X eased_target) 0"
    using genesis_hash_depth by (simp only: example_block_hash example_heights)
  have off: "getTargetHeight ?X (block_target ?X example_block)
      - getTargetHeight ?X eased_target = - 3"
    by (simp add: hc example_heights)
  have nf: "\<not> ((0::int) = 0
      \<and> getTargetHeight ?X (block_target ?X example_block)
          = getTargetHeight ?X eased_target)"
    by (simp add: example_heights hc)
  have "nextInterlink_hashes ?X example_block eased_target
      = Some (Rebuilt [Hash GENESIS_HASH, Undefined, Undefined,
                       Hash GENESIS_HASH, Hash 11, Hash 12, Hash 13, Hash 14])"
    using nextInterlink_hashes_rebuilt [OF depth_loop_largest [OF ld] nf]
    by (simp add: example_heights hc example_block_hashes js_index_def upto_rec1)
  then have "nextInterlink ?X example_block eased_target = Some (Inl MalformedBlock)"
    by (simp add: nextInterlink_def new_BlockInterlink_def)
  with ld off show ?thesis by (intro conjI)
qed

text \<open>
  The same instance of C3 with the hash and the height written out: the largest depth of
  \<open>GENESIS_HASH\<close> at height 243 is 0, and the promise is rejected.
\<close>

theorem nextInterlink_eased_rejected_witness:
  "largest_depth GENESIS_HASH 243 0
   \<and> nextInterlink (example_externals GENESIS_HASH example_target) example_block eased_target
       = Some (Inl MalformedBlock)"
  using nextInterlink_eased_rejected by (simp add: example_block_hash example_heights)

text \<open>
  Claim C4, as stated, fails: it says that the interlink returned by
  \<^verbatim>\<open>nextInterlink\<close> is never empty and starts with the genesis hash, also on the fast
  path and for the genesis block. For the genesis block, whose hash is \<open>GENESIS_HASH\<close>
  and whose interlink is empty, and its own target \<open>2^240\<close>, the fast path returns the
  empty interlink.
\<close>

theorem nextInterlink_genesis_empty:
  "nextInterlink (example_externals GENESIS_HASH example_target)
       (GENESIS (example_externals GENESIS_HASH example_target)) example_target
     = Some (Inr \<lparr>hashes = []\<rparr>)"
proof -
  let ?X = "example_externals GENESIS_HASH example_target"
  have t: "getTargetHeight ?X (block_target ?X (GENESIS ?X))
      = getTargetHeight ?X example_target"
    by (simp only: example_block_target)
  have p: "\<not> isProofOfWork (block_hash ?X (GENESIS ?X))
               (Math_pow2 (getTargetHeight ?X example_target - 1))"
    using genesis_hash_level [of 239] by (simp add: example_block_hash example_heights)
  show ?thesis
    using nextInterlink_unchanged [OF t p] by (simp add: GENESIS_def)
qed

text \<open>
  Claim C4, amended. Every block whose hash is not zero has a largest depth \<open>d\<close> for
  every \<open>nextTarget\<close>. On the fast path (\<open>d = 0\<close> and the target height unchanged)
  \<^verbatim>\<open>nextInterlink(nextTarget)\<close> returns the current interlink of the block, unchanged.
  On the rebuilding path, when the start index \<open>d + offset + 1\<close> of the tail is not
  negative, it returns an interlink that is not empty and whose element at position 0 is
  the genesis hash.
\<close>

theorem nextInterlink_first_entry:
  assumes "block_hash X b \<noteq> 0"
  shows "\<exists>d. largest_depth (block_hash X b) (getTargetHeight X nextTarget) d
           \<and> (if d = 0
                  \<and> getTargetHeight X (block_target X b) = getTargetHeight X nextTarget
               then nextInterlink X b nextTarget = Some (Inr (interlink b))
               else 0 \<le> d + (getTargetHeight X (block_target X b)
                               - getTargetHeight X nextTarget) + 1
                    \<longrightarrow> (\<exists>r. nextInterlink X b nextTarget = Some (Inr r)
                             \<and> hashes r \<noteq> [] \<and> hashes r ! 0 = GENESIS_HASH))"
proof -
  obtain d where ld: "largest_depth (block_hash X b) (getTargetHeight X nextTarget) d"
    using largest_depth_exists [OF assms] by blast
  have dl: "depth_loop (block_hash X b) (getTargetHeight X nextTarget) 1 0 = Some d"
    using ld by (rule depth_loop_largest)
  have "if d = 0 \<and> getTargetHeight X (block_target X b) = getTargetHeight X nextTarget
        then nextInterlink X b nextTarget = Some (Inr (interlink b))
        else 0 \<le> d + (getTargetHeight X (block_target X b)
                        - getTargetHeight X nextTarget) + 1
             \<longrightarrow> (\<exists>r. nextInterlink X b nextTarget = Some (Inr r)
                      \<and> hashes r \<noteq> [] \<and> hashes r ! 0 = GENESIS_HASH)"
  proof (cases "d = 0
      \<and> getTargetHeight X (block_target X b) = getTargetHeight X nextTarget")
    case True
    then have "nextInterlink X b nextTarget = Some (Inr (interlink b))"
      using dl by (simp add: nextInterlink_def nextInterlink_hashes_def Let_def)
    then show ?thesis using True by simp
  next
    case False
    show ?thesis
    proof (simp only: False if_False, rule impI)
      assume s: "0 \<le> d + (getTargetHeight X (block_target X b)
                            - getTargetHeight X nextTarget) + 1"
      show "\<exists>r. nextInterlink X b nextTarget = Some (Inr r)
               \<and> hashes r \<noteq> [] \<and> hashes r ! 0 = GENESIS_HASH"
        using nextInterlink_in_range [OF dl False s] by simp
    qed
  qed
  with ld show ?thesis by blast
qed

text \<open>
  An instance of the amended C4 on the rebuilding path: the example hash has the largest
  depth 2 at height 240, and the start index of the tail is 3.
\<close>

theorem nextInterlink_first_entry_witness:
  "block_hash (example_externals example_hash example_target) example_block \<noteq> 0
   \<and> (\<exists>r. nextInterlink (example_externals example_hash example_target) example_block
              example_target = Some (Inr r)
           \<and> hashes r \<noteq> [] \<and> hashes r ! 0 = GENESIS_HASH)"
proof -
  let ?X = "example_externals example_hash example_target"
  have nz: "block_hash ?X example_block \<noteq> 0"
    by (simp add: example_block_hash example_hash_def)
  have hc: "getTargetHeight ?X (block_target ?X example_block) = 240"
    by (simp only: example_block_target example_heights)
  have two: "largest_depth (block_hash ?X example_block) (getTargetHeight ?X example_target) 2"
    using example_largest_depth by (simp only: example_block_hash example_heights)
  obtain d where d: "largest_depth (block_hash ?X example_block)
        (getTargetHeight ?X example_target) d"
    and c: "if d = 0
              \<and> getTargetHeight ?X (block_target ?X example_block)
                  = getTargetHeight ?X example_target
            then nextInterlink ?X example_block example_target
                   = Some (Inr (interlink example_block))
            else 0 \<le> d + (getTargetHeight ?X (block_target ?X example_block)
                            - getTargetHeight ?X example_target) + 1
                 \<longrightarrow> (\<exists>r. nextInterlink ?X example_block example_target = Some (Inr r)
                          \<and> hashes r \<noteq> [] \<and> hashes r ! 0 = GENESIS_HASH)"
    using nextInterlink_first_entry [OF nz, of example_target] by blast
  have "d = 2" using d two by (rule largest_depth_unique)
  with c have "\<exists>r. nextInterlink ?X example_block example_target = Some (Inr r)
                 \<and> hashes r \<noteq> [] \<and> hashes r ! 0 = GENESIS_HASH"
    by (simp add: hc example_heights)
  with nz show ?thesis by simp
qed

text \<open>
  Claim C5. If \<open>nextTarget\<close> is the block's own target and the hash of the block does
  not meet \<open>2^(hn - 1)\<close>, where \<open>hn\<close> is the height of \<open>nextTarget\<close>, then
  \<^verbatim>\<open>nextInterlink(nextTarget)\<close> returns the current interlink of the block unchanged.
\<close>

theorem nextInterlink_fast_path:
  assumes "nextTarget = block_target X b"
    and "\<not> isProofOfWork (block_hash X b) (Math_pow2 (getTargetHeight X nextTarget - 1))"
  shows "nextInterlink X b nextTarget = Some (Inr (interlink b))"
  using assms by (simp add: nextInterlink_unchanged)

text \<open>
  An instance of C5: a block with the hash \<open>GENESIS_HASH\<close> and the target \<open>2^240\<close>.
\<close>

theorem nextInterlink_fast_path_witness:
  "nextInterlink (example_externals GENESIS_HASH example_target) example_block example_target
     = Some (Inr example_interlink)"
proof -
  let ?X = "example_externals GENESIS_HASH example_target"
  have t: "example_target = block_target ?X example_block"
    by (simp only: example_block_target)
  have p: "\<not> isProofOfWork (block_hash ?X example_block)
               (Math_pow2 (getTargetHeight ?X example_target - 1))"
    using genesis_hash_level [of 239] by (simp add: example_block_hash example_heights)
  show ?thesis
    using nextInterlink_fast_path [OF t p] by (simp add: example_block_def)
qed

text \<open>
  Claim C6. The claim is that \<^verbatim>\<open>NetAddress.unserialize(a.serialize())\<close> is \<open>a\<close> again
  and that \<^verbatim>\<open>serialize\<close> writes \<open>serializedSize\<close> bytes. The code does neither: for
  the address with all fields zero and an empty host, \<^verbatim>\<open>serialize\<close> writes 15 bytes
  and throws the ReferenceError of line 25, and \<^verbatim>\<open>unserialize\<close> of the 19 zero bytes
  that the specification gives as its serialized form throws the ReferenceError of
  line 16.
\<close>

theorem roundtrip_raises:
  "serialize ascii_encode zero_address None
     = Throws (ReferenceError ''signalId'')
         \<lparr>buffer = replicate 19 0, readPos = 0, writePos = 15\<rparr>
   \<and> unserialize ascii_decode (new_SerialBuffer 19) = Inl (ReferenceError ''ipAddress'')"
proof -
  have r: "replicate 19 (0::byte) = [0, 0, 0, 0, 0, 0, 0, 0, 0, 0, 0, 0, 0, 0, 0, 0, 0, 0, 0]"
    "replicate 4 (0::byte) = [0, 0, 0, 0]"
    by (simp_all add: numeral_eq_Suc)
  have "serialize ascii_encode zero_address None
     = Throws (ReferenceError ''signalId'')
         \<lparr>buffer = replicate 19 0, readPos = 0, writePos = 15\<rparr>"
    by (simp add: serialize_def zero_address_def serializedSize_def new_SerialBuffer_def
      writeUint32_def writeUint64_def writeUint16_def writeUint8_def writeVarLenString_def
      write_bytes_def be_bytes_numeral be_bytes_1 Let_def ascii_encode_def r)
  moreover have "unserialize ascii_decode (new_SerialBuffer 19)
      = Inl (ReferenceError ''ipAddress'')"
    by (simp add: unserialize_def new_SerialBuffer_def ascii_decode_def
      readUint32_def readUint64_def readUint16_def readUint8_def readVarLenString_def
      read_bytes_def be_nat_def)
  ultimately show ?thesis by simp
qed

text \<open>
  Claim C7. The claim is that \<^verbatim>\<open>nextInterlink\<close> reads the current interlink only at
  positions from 0 to \<open>L - 1\<close>, so that every element of the result is the genesis hash,
  the hash of the block or an entry of the current interlink. The code does not do this:
  for a block of target height 240 whose hash has depth 0 and a next target of height 243,
  the tail loop starts at index -2, the array holds \<^verbatim>\<open>undefined\<close> twice when the loops
  are done, and the constructor of line 177 rejects it.
\<close>

theorem nextInterlink_negative_start:
  "nextInterlink_hashes (example_externals GENESIS_HASH example_target) example_block
       eased_target
     = Some (Rebuilt [Hash GENESIS_HASH, Undefined, Undefined,
                      Hash GENESIS_HASH, Hash 11, Hash 12, Hash 13, Hash 14])
   \<and> nextInterlink (example_externals GENESIS_HASH example_target) example_block eased_target
       = Some (Inl MalformedBlock)"
proof -
  let ?X = "example_externals GENESIS_HASH example_target"
  have hc: "getTargetHeight ?X (block_target ?X example_block) = 240"
    by (simp only: example_block_target example_heights)
  have "\<not> isProofOfWork (block_hash ?X example_block)
               (Math_pow2 (getTargetHeight ?X eased_target - 1))"
    using genesis_hash_level [of 242] by (simp add: example_block_hash example_heights)
  then have d: "depth_loop (block_hash ?X example_block) (getTargetHeight ?X eased_target) 1 0
      = Some 0"
    by (rule depth_loop_zero)
  have nf: "\<not> ((0::int) = 0
      \<and> getTargetHeight ?X (block_target ?X example_block)
          = getTargetHeight ?X eased_target)"
    by (simp add: example_heights hc)
  have a: "nextInterlink_hashes ?X example_block eased_target
      = Some (Rebuilt [Hash GENESIS_HASH, Undefined, Undefined,
                       Hash GENESIS_HASH, Hash 11, Hash 12, Hash 13, Hash 14])"
    using nextInterlink_hashes_rebuilt [OF d nf]
    by (simp add: example_heights hc example_block_hashes js_index_def upto_rec1)
  then have "nextInterlink ?X example_block eased_target = Some (Inl MalformedBlock)"
    by (simp add: nextInterlink_def new_BlockInterlink_def)
  with a show ?thesis by (intro conjI)
qed

text \<open>
  Claim C9. The claim is that \<open>serializedSize\<close> is 19 plus the length of the host, that
  this is the exact number of bytes \<^verbatim>\<open>serialize\<close> writes, and that it is 30 for the
  address (1, 0x0102030405060708, "example.com", 8443, 42). The getter has these values,
  but \<^verbatim>\<open>serialize\<close> does not write that many bytes: for this address it has written 26
  of the 30 bytes of its buffer when it throws the ReferenceError of line 25.
\<close>

theorem serializedSize_not_written:
  "serializedSize a = 19 + length (host a)
   \<and> serializedSize example_address = 30
   \<and> (case serialize ascii_encode example_address None of
         Returns buf \<Rightarrow> False
       | Throws e buf \<Rightarrow>
           e = ReferenceError ''signalId'' \<and> length (buffer buf) = 30 \<and> writePos buf = 26)"
proof -
  have "serializedSize a = 19 + length (host a)"
    by (simp add: serializedSize_def)
  moreover have "serializedSize example_address = 30"
    by (simp add: serializedSize_def example_address_def js_string_def)
  moreover have "case serialize ascii_encode example_address None of
         Returns buf \<Rightarrow> False
       | Throws e buf \<Rightarrow>
           e = ReferenceError ''signalId'' \<and> length (buffer buf) = 30 \<and> writePos buf = 26"
    by (simp add: serialize_def example_address_def serializedSize_def new_SerialBuffer_def
      writeUint32_def writeUint64_def writeUint16_def writeUint8_def writeVarLenString_def
      write_bytes_def be_bytes_numeral be_bytes_1 Let_def ascii_encode_def js_string_def)
  ultimately show ?thesis by (intro conjI)
qed

text \<open>
  Claim C10. Two NetAddress records are equal, in the sense of \<^verbatim>\<open>equals\<close>, if and only
  if their services, host, port and signalId are equal; changing the timestamp of either
  does not change the result.
\<close>

theorem equals_iff:
  "(equals a (NetAddressObj b) \<longleftrightarrow>
      services a = services b \<and> host a = host b \<and> port a = port b \<and> signalId a = signalId b)
   \<and> equals (a\<lparr>NetAddress.timestamp := t\<rparr>) (NetAddressObj (b\<lparr>NetAddress.timestamp := t'\<rparr>))
       = equals a (NetAddressObj b)"
  by simp

end
